theory Spec2Isabelle
  imports Main "HOL-Library.Word"
begin

section \<open>JavaScript values as the client sees them\<close>

text \<open>
  A JavaScript string is a sequence of UTF-16 code units and \<open>length\<close> counts code
  units, so a string is a list of 16-bit words. Property names are only ever compared
  for equality and are kept as \<open>string\<close>.
\<close>

type_synonym jsstring = "16 word list"

definition js :: "string \<Rightarrow> jsstring" where
  "js s = map (\<lambda>c. of_char c) s"

text \<open>
  The values a decoded JSON body can hold, with \<open>undefined\<close> for a property that is
  not there. Numbers are restricted to integers: the floating-point part of the number
  type is not modelled. An object is the list of its own properties, read with
  \<open>map_of\<close>.
\<close>

datatype jsval =
    JUndefined
  | JNull
  | JBool bool
  | JNum int
  | JStr jsstring
  | JArr "jsval list"
  | JObj "(string \<times> jsval) list"

datatype js_error = Error jsstring | TypeError

text \<open>
  What the host decides and the model does not compute: the decimal form of a number,
  the number a string converts to (\<open>None\<close> is NaN), the locale form of a number, the
  separator \<open>Array.prototype.toLocaleString\<close> puts between elements, and the message
  of a TypeError. Every theorem holds for every host.
\<close>

record host =
  NumberToString :: "int \<Rightarrow> jsstring"
  StringToNumber :: "jsstring \<Rightarrow> int option"
  NumberToLocaleString :: "int \<Rightarrow> jsstring"
  ListSeparator :: jsstring
  TypeErrorMessage :: jsstring

text \<open>An exception leaves the rest of a computation undone.\<close>

definition and_then :: "'e + 'a \<Rightarrow> ('a \<Rightarrow> 'e + 'b) \<Rightarrow> 'e + 'b" where
  "and_then m f = (case m of Inl e \<Rightarrow> Inl e | Inr x \<Rightarrow> f x)"

fun truthy :: "jsval \<Rightarrow> bool" where
  "truthy JUndefined = False"
| "truthy JNull = False"
| "truthy (JBool b) = b"
| "truthy (JNum n) = (n \<noteq> 0)"
| "truthy (JStr s) = (s \<noteq> [])"
| "truthy (JArr xs) = True"
| "truthy (JObj fs) = True"

text \<open>
  \<open>v.k\<close>: a TypeError on \<open>null\<close> and \<open>undefined\<close>, the own property of an object
  (\<open>undefined\<close> when absent), \<open>length\<close> of an array or a string. None of the names
  the client reads is inherited from a prototype, except \<open>length\<close>.
\<close>

fun get_prop :: "jsval \<Rightarrow> string \<Rightarrow> js_error + jsval" where
  "get_prop JUndefined k = Inl TypeError"
| "get_prop JNull k = Inl TypeError"
| "get_prop (JObj fs) k = Inr (case map_of fs k of None \<Rightarrow> JUndefined | Some v \<Rightarrow> v)"
| "get_prop (JArr xs) k = Inr (if k = ''length'' then JNum (int (length xs)) else JUndefined)"
| "get_prop (JStr s) k = Inr (if k = ''length'' then JNum (int (length s)) else JUndefined)"
| "get_prop (JBool b) k = Inr JUndefined"
| "get_prop (JNum n) k = Inr JUndefined"

fun join_strings :: "jsstring \<Rightarrow> jsstring list \<Rightarrow> jsstring" where
  "join_strings sep [] = []"
| "join_strings sep [x] = x"
| "join_strings sep (x # y # ys) = x @ sep @ join_strings sep (y # ys)"

text \<open>
  \<open>ToString\<close>. An array converts through \<open>join\<close>, which converts each element, a
  \<open>null\<close> or \<open>undefined\<close> one to the empty string. An object converts through its
  \<open>toString\<close>: the inherited one gives \<open>[object Object]\<close>; an own property of that
  name hides it and, like every decoded JSON value, is not callable, and then the
  inherited \<open>valueOf\<close> returns the object itself or an own one is not callable either,
  so the conversion throws a TypeError.
\<close>

fun to_string :: "host \<Rightarrow> jsval \<Rightarrow> js_error + jsstring"
  and element_strings :: "host \<Rightarrow> jsval list \<Rightarrow> js_error + jsstring list" where
  "to_string h JUndefined = Inr (js ''undefined'')"
| "to_string h JNull = Inr (js ''null'')"
| "to_string h (JBool b) = Inr (js (if b then ''true'' else ''false''))"
| "to_string h (JNum n) = Inr (NumberToString h n)"
| "to_string h (JStr s) = Inr s"
| "to_string h (JArr xs) =
     and_then (element_strings h xs) (\<lambda>ss. Inr (join_strings (js '','') ss))"
| "to_string h (JObj fs) =
     (if map_of fs ''toString'' = None then Inr (js ''[object Object]'') else Inl TypeError)"
| "element_strings h [] = Inr []"
| "element_strings h (x # xs) =
     and_then (if x = JUndefined \<or> x = JNull then Inr [] else to_string h x) (\<lambda>s.
     and_then (element_strings h xs) (\<lambda>ss. Inr (s # ss)))"




text \<open>
  \<open>v.toLocaleString()\<close>: a TypeError on \<open>null\<close> and \<open>undefined\<close>; the host's form of a
  number; a string itself; for a boolean and for an object the inherited method, which
  calls \<open>toString\<close>; for an array the elements' own \<open>toLocaleString\<close> joined by the
  host's separator. An own property named \<open>toLocaleString\<close> or \<open>toString\<close> hides the
  method and is not callable.
\<close>

fun js_toLocaleString :: "host \<Rightarrow> jsval \<Rightarrow> js_error + jsstring"
  and element_locale_strings :: "host \<Rightarrow> jsval list \<Rightarrow> js_error + jsstring list" where
  "js_toLocaleString h JUndefined = Inl TypeError"
| "js_toLocaleString h JNull = Inl TypeError"
| "js_toLocaleString h (JBool b) = Inr (js (if b then ''true'' else ''false''))"
| "js_toLocaleString h (JNum n) = Inr (NumberToLocaleString h n)"
| "js_toLocaleString h (JStr s) = Inr s"
| "js_toLocaleString h (JArr xs) =
     and_then (element_locale_strings h xs) (\<lambda>ss. Inr (join_strings (ListSeparator h) ss))"
| "js_toLocaleString h (JObj fs) =
     (if map_of fs ''toLocaleString'' = None \<and> map_of fs ''toString'' = None
      then Inr (js ''[object Object]'') else Inl TypeError)"
| "element_locale_strings h [] = Inr []"
| "element_locale_strings h (x # xs) =
     and_then (if x = JUndefined \<or> x = JNull then Inr [] else js_toLocaleString h x) (\<lambda>s.
     and_then (element_locale_strings h xs) (\<lambda>ss. Inr (s # ss)))"

text \<open>\<open>v[k1][k2]...\<close>, one property read after the other.\<close>

fun get_path :: "jsval \<Rightarrow> string list \<Rightarrow> js_error + jsval" where
  "get_path v [] = Inr v"
| "get_path v (k # ks) = and_then (get_prop v k) (\<lambda>x. get_path x ks)"

text \<open>
  \<open>String.prototype.trim\<close> removes WhiteSpace and LineTerminator code units from both
  ends: TAB, LF, VT, FF, CR, SP, NBSP, U+1680, U+2000 to U+200A, U+2028, U+2029,
  U+202F, U+205F, U+3000 and U+FEFF.
\<close>

definition is_ws :: "16 word \<Rightarrow> bool" where
  "is_ws c = (c \<in> set [9, 10, 11, 12, 13, 32, 160, 5760,
     8192, 8193, 8194, 8195, 8196, 8197, 8198, 8199, 8200, 8201, 8202,
     8232, 8233, 8239, 8287, 12288, 65279])"

definition trim :: "jsstring \<Rightarrow> jsstring" where
  "trim s = rev (dropWhile is_ws (rev (dropWhile is_ws s)))"

section \<open>App.js: the interaction state and its handlers\<close>

record resume_file =
  file_name :: jsstring
  file_type :: jsstring
  file_size :: nat

text \<open>
  The five \<open>useState\<close> cells of \<open>App\<close>. \<open>null\<close> is \<open>None\<close> for the file and the
  error message and \<open>JNull\<close> for the results.
\<close>

record app_state =
  selectedFile :: "resume_file option"
  jobDescription :: jsstring
  isAnalyzing :: bool
  results :: jsval
  error :: "jsstring option"

definition initial_state :: app_state where
  "initial_state =
     \<lparr>selectedFile = None, jobDescription = [], isAnalyzing = False,
      results = JNull, error = None\<rparr>"

definition App_handleFileSelect :: "resume_file option \<Rightarrow> app_state \<Rightarrow> app_state" where
  "App_handleFileSelect f s = s\<lparr>selectedFile := f, error := None, results := JNull\<rparr>"

definition handleJobDescriptionChange :: "jsstring \<Rightarrow> app_state \<Rightarrow> app_state" where
  "handleJobDescriptionChange v s = s\<lparr>jobDescription := v, error := None, results := JNull\<rparr>"

definition handleReset :: "app_state \<Rightarrow> app_state" where
  "handleReset s =
     s\<lparr>selectedFile := None, jobDescription := [], results := JNull, error := None\<rparr>"

definition isReadyToAnalyze :: "app_state \<Rightarrow> bool" where
  "isReadyToAnalyze s = (selectedFile s \<noteq> None \<and> length (trim (jobDescription s)) \<ge> 50)"

text \<open>
  \<open>handleAnalyze\<close> up to its \<open>await\<close>: the state it leaves and the request it
  issues, \<open>None\<close> when it returns early. The request is the two arguments of
  \<open>analyzeResume\<close>.
\<close>

definition handleAnalyze_start :: "app_state \<Rightarrow> app_state \<times> (resume_file \<times> jsstring) option" where
  "handleAnalyze_start s =
     (case selectedFile s of
        None \<Rightarrow> (s\<lparr>error := Some (js ''Please select a resume file.'')\<rparr>, None)
      | Some f \<Rightarrow>
          if jobDescription s = [] \<or> length (trim (jobDescription s)) < 50
          then (s\<lparr>error := Some (js
                  ''Please provide a detailed job description (at least 50 characters).'')\<rparr>,
                None)
          else (s\<lparr>isAnalyzing := True, error := None, results := JNull\<rparr>,
                Some (f, trim (jobDescription s))))"

text \<open>
  \<open>err.message\<close> of what \<open>handleAnalyze\<close> catches, and the part of \<open>handleAnalyze\<close>
  after the \<open>await\<close>: \<open>Inr\<close> is the value \<open>analyzeResume\<close> resolved to, \<open>Inl\<close>
  what it threw. The setters act on the state as it is when the promise settles.
\<close>

definition message :: "host \<Rightarrow> js_error \<Rightarrow> jsstring" where
  "message h err = (case err of Error m \<Rightarrow> m | TypeError \<Rightarrow> TypeErrorMessage h)"

definition handleAnalyze_finish :: "host \<Rightarrow> js_error + jsval \<Rightarrow> app_state \<Rightarrow> app_state" where
  "handleAnalyze_finish h r s =
     (case r of
        Inr analysisResults \<Rightarrow> s\<lparr>results := analysisResults\<rparr>
      | Inl err \<Rightarrow>
          s\<lparr>error := Some (if message h err \<noteq> [] then message h err
                           else js ''Analysis failed. Please try again.'')\<rparr>)
     \<lparr>isAnalyzing := False\<rparr>"

section \<open>JobInput.js\<close>

definition minLength :: nat where
  "minLength = 50"

definition characterCount :: "jsstring \<Rightarrow> nat" where
  "characterCount v = length v"

definition isValid :: "jsstring \<Rightarrow> bool" where
  "isValid v = (characterCount v \<ge> minLength)"

section \<open>FileUploader.js\<close>

text \<open>
  What a handler of the uploader does besides returning: nothing, an \<open>alert\<close>, or a
  call of \<open>onFileSelect\<close>. The drag highlight (\<open>dragActive\<close>) is left out.
\<close>

datatype uploader_effect = NoEffect | Alert jsstring | OnFileSelect "resume_file option"

definition allowedTypes :: "jsstring list" where
  "allowedTypes =
     [js ''application/pdf'',
      js ''application/vnd.openxmlformats-officedocument.wordprocessingml.document'']"

definition maxSize :: nat where
  "maxSize = 16 * 1024 * 1024"

definition FileUploader_handleFileSelect :: "resume_file option \<Rightarrow> uploader_effect" where
  "FileUploader_handleFileSelect file =
     (case file of
        None \<Rightarrow> NoEffect
      | Some f \<Rightarrow>
          if file_type f \<notin> set allowedTypes
          then Alert (js ''Please select a PDF or DOCX file.'')
          else if file_size f > maxSize
          then Alert (js ''File size must be less than 16MB.'')
          else OnFileSelect (Some f))"

text \<open>\<open>files\<close> is the event's file list; \<open>files[0]\<close> is \<open>undefined\<close> when it is empty.\<close>

definition handleDrop :: "resume_file list \<Rightarrow> uploader_effect" where
  "handleDrop files =
     (case files of [] \<Rightarrow> NoEffect | f # _ \<Rightarrow> FileUploader_handleFileSelect (Some f))"

definition handleInputChange :: "resume_file list \<Rightarrow> uploader_effect" where
  "handleInputChange files =
     (case files of [] \<Rightarrow> NoEffect | f # _ \<Rightarrow> FileUploader_handleFileSelect (Some f))"

definition removeFile :: uploader_effect where
  "removeFile = OnFileSelect None"

text \<open>\<open>App\<close> passes its \<open>handleFileSelect\<close> as \<open>onFileSelect\<close>.\<close>

definition run_effect :: "uploader_effect \<Rightarrow> app_state \<Rightarrow> app_state" where
  "run_effect e s = (case e of OnFileSelect f \<Rightarrow> App_handleFileSelect f s | _ \<Rightarrow> s)"

section \<open>services/api.js\<close>

text \<open>
  How a request of the axios instance settles, as far as the code looks at it: resolved
  with \<open>response.data\<close>; rejected with \<open>error.response\<close> set (its \<open>data\<close>);
  rejected with only \<open>error.request\<close> set; rejected with neither.
\<close>

datatype axios_result =
    Response jsval
  | ErrorResponse jsval
  | ErrorRequest
  | ErrorOther

text \<open>
  \<open>post\<close> is the network: what the POST of the form data (the file and the job
  description) settles to. \<open>Inl\<close> is the rejection of the returned promise.
  \<open>new Error(m)\<close> converts \<open>m\<close> to a string, which can itself throw.
\<close>

definition analyzeResume ::
  "host \<Rightarrow> (resume_file \<times> jsstring \<Rightarrow> axios_result) \<Rightarrow> resume_file \<Rightarrow> jsstring
     \<Rightarrow> js_error + jsval" where
  "analyzeResume h post resumeFile jobDesc =
     (case post (resumeFile, jobDesc) of
        Response d \<Rightarrow> Inr d
      | ErrorResponse d \<Rightarrow>
          and_then (get_prop d ''error'') (\<lambda>e.
          and_then (to_string h (if truthy e then e else JStr (js ''Analysis failed'')))
            (\<lambda>m. Inl (Error m)))
      | ErrorRequest \<Rightarrow>
          Inl (Error (js ''Unable to connect to the server. Please try again.''))
      | ErrorOther \<Rightarrow> Inl (Error (js ''An unexpected error occurred'')))"

definition default_formats :: jsval where
  "default_formats =
     JObj [(''supported_formats'', JArr [JStr (js ''pdf''), JStr (js ''docx'')]),
           (''max_file_size_mb'', JNum 16)]"

definition getSupportedFormats :: "axios_result \<Rightarrow> js_error + jsval" where
  "getSupportedFormats r = (case r of Response d \<Rightarrow> Inr d | _ \<Rightarrow> Inr default_formats)"

text \<open>
  \<open>handleAnalyze\<close> as a whole when nothing else happens while it waits: the state at
  the \<open>await\<close> (or at the early return) and the state at the end.
\<close>

definition handleAnalyze ::
  "host \<Rightarrow> (resume_file \<times> jsstring \<Rightarrow> axios_result) \<Rightarrow> app_state \<Rightarrow> app_state \<times> app_state" where
  "handleAnalyze h post s =
     (case handleAnalyze_start s of
        (s1, None) \<Rightarrow> (s1, s1)
      | (s1, Some (f, jd)) \<Rightarrow> (s1, handleAnalyze_finish h (analyzeResume h post f jd) s1))"

section \<open>The client as a transition system\<close>

text \<open>
  The events the rendered page can deliver, each enabled as the \<open>disabled\<close> attributes
  and the conditional rendering of \<open>App\<close> and \<open>FileUploader\<close> allow: the file input,
  the remove button, the text area and the reset button are disabled while analyzing; the
  analyze button is enabled when \<open>isReadyToAnalyze\<close> and not analyzing; the drop handler
  has no guard; the reset button is rendered when \<open>results || error\<close>; the remove button
  is rendered when a file is selected. \<open>pending\<close> is the request in flight.
\<close>

record config =
  app :: app_state
  pending :: "(resume_file \<times> jsstring) option"

datatype event =
    Drop "resume_file list"
  | InputChange "resume_file list"
  | RemoveClick
  | Typed jsstring
  | AnalyzeClick
  | Settled axios_result
  | ResetClick

definition error_shown :: "app_state \<Rightarrow> bool" where
  "error_shown s = (case error s of None \<Rightarrow> False | Some m \<Rightarrow> m \<noteq> [])"

fun enabled :: "config \<Rightarrow> event \<Rightarrow> bool" where
  "enabled c (Drop files) = True"
| "enabled c (InputChange files) = (\<not> isAnalyzing (app c))"
| "enabled c RemoveClick = (selectedFile (app c) \<noteq> None \<and> \<not> isAnalyzing (app c))"
| "enabled c (Typed v) = (\<not> isAnalyzing (app c))"
| "enabled c AnalyzeClick = (isReadyToAnalyze (app c) \<and> \<not> isAnalyzing (app c))"
| "enabled c (Settled r) = (pending c \<noteq> None)"
| "enabled c ResetClick =
     ((truthy (results (app c)) \<or> error_shown (app c)) \<and> \<not> isAnalyzing (app c))"

fun fire :: "host \<Rightarrow> config \<Rightarrow> event \<Rightarrow> config" where
  "fire h c (Drop files) = c\<lparr>app := run_effect (handleDrop files) (app c)\<rparr>"
| "fire h c (InputChange files) = c\<lparr>app := run_effect (handleInputChange files) (app c)\<rparr>"
| "fire h c RemoveClick = c\<lparr>app := run_effect removeFile (app c)\<rparr>"
| "fire h c (Typed v) = c\<lparr>app := handleJobDescriptionChange v (app c)\<rparr>"
| "fire h c AnalyzeClick =
     (case handleAnalyze_start (app c) of
        (s1, None) \<Rightarrow> c\<lparr>app := s1\<rparr>
      | (s1, Some req) \<Rightarrow> c\<lparr>app := s1, pending := Some req\<rparr>)"
| "fire h c (Settled r) =
     (case pending c of
        None \<Rightarrow> c
      | Some (f, jd) \<Rightarrow>
          c\<lparr>app := handleAnalyze_finish h (analyzeResume h (\<lambda>_. r) f jd) (app c),
            pending := None\<rparr>)"
| "fire h c ResetClick = c\<lparr>app := handleReset (app c)\<rparr>"

definition initial_config :: config where
  "initial_config = \<lparr>app = initial_state, pending = None\<rparr>"

inductive reachable :: "host \<Rightarrow> config \<Rightarrow> bool" for h :: host where
  init: "reachable h initial_config"
| step: "reachable h c \<Longrightarrow> enabled c e \<Longrightarrow> reachable h (fire h c e)"

section \<open>ResultsDisplay.js\<close>

text \<open>
  What the component returns: a tree of elements, each with its class name and children.
  \<open>Txt\<close> is literal text of the source (its emoji left out), \<open>Val v\<close> the value
  \<open>v\<close> placed as a child with braces; what React makes of a child when it mounts the
  tree is not modelled. \<open>Inl\<close> is an exception thrown while rendering, \<open>Inr None\<close>
  is \<open>return null\<close>. The inner components \<open>ScoreCircle\<close> and \<open>KeywordList\<close> are
  rendered in place.
\<close>

datatype view = Txt string | Val jsval | El string "view list"












text \<open>The elements of a tree, the tree itself included.\<close>

fun subviews :: "view \<Rightarrow> view list" where
  "subviews (Txt t) = [Txt t]"
| "subviews (Val v) = [Val v]"
| "subviews (El c vs) = El c vs # concat (map subviews vs)"

text \<open>
  The value at path \<open>p\<close> of the response is read and shown: what \<open>component\<close> makes
  of it is an element of the tree.
\<close>

definition shows_at :: "jsval \<Rightarrow> string list \<Rightarrow> (jsval \<Rightarrow> js_error + view) \<Rightarrow> view \<Rightarrow> bool" where
  "shows_at res p component v =
     (case get_path res p of
        Inl e \<Rightarrow> False
      | Inr x \<Rightarrow> (case component x of Inl e \<Rightarrow> False | Inr c \<Rightarrow> c \<in> set (subviews v)))"





text \<open>
  The states of a run of \<open>handleAnalyze\<close>: Completed with results set (not \<open>null\<close>)
  and no error, Failed with an error message set and no results, Analyzing in between.
\<close>

definition Completed :: "app_state \<Rightarrow> bool" where
  "Completed s = (results s \<noteq> JNull \<and> error s = None \<and> \<not> isAnalyzing s)"

definition Failed :: "app_state \<Rightarrow> bool" where
  "Failed s = (error s \<noteq> None \<and> results s = JNull \<and> \<not> isAnalyzing s)"

definition Analyzing :: "app_state \<Rightarrow> bool" where
  "Analyzing s = (isAnalyzing s \<and> results s = JNull \<and> error s = None)"


text \<open>
  A value carries the two accepted formats and the cap of 16 when its
  \<open>supported_formats\<close> is the array of the two formats and its \<open>max_file_size_mb\<close> is
  16, as in the fallback record of \<open>getSupportedFormats\<close>.
\<close>

definition reports_formats_and_cap :: "jsval \<Rightarrow> bool" where
  "reports_formats_and_cap v =
     (get_prop v ''supported_formats'' = Inr (JArr [JStr (js ''pdf''), JStr (js ''docx'')])
      \<and> get_prop v ''max_file_size_mb'' = Inr (JNum 16))"

section \<open>Concrete inputs\<close>

text \<open>
  A host: numbers in decimal digits, also as their locale form; strings of decimal
  digits convert to their value (the empty string to 0), other strings to NaN.
\<close>

fun decimal :: "nat \<Rightarrow> jsstring" where
  "decimal n =
     (if n < 10 then [48 + of_nat n] else decimal (n div 10) @ [48 + of_nat (n mod 10)])"

definition int_decimal :: "int \<Rightarrow> jsstring" where
  "int_decimal n = (if n < 0 then 45 # decimal (nat (- n)) else decimal (nat n))"

definition digits_value :: "jsstring \<Rightarrow> int option" where
  "digits_value s =
     (if list_all (\<lambda>c. 48 \<le> c \<and> c \<le> 57) s
      then Some (foldl (\<lambda>a c. 10 * a + (uint c - 48)) 0 s)
      else None)"

definition example_host :: host where
  "example_host =
     \<lparr>NumberToString = int_decimal,
      StringToNumber = digits_value,
      NumberToLocaleString = int_decimal,
      ListSeparator = js '','',
      TypeErrorMessage = js ''Cannot read properties of null''\<rparr>"

definition pdf_file :: resume_file where
  "pdf_file =
     \<lparr>file_name = js ''resume.pdf'', file_type = js ''application/pdf'', file_size = 204800\<rparr>"

definition text_file :: resume_file where
  "text_file =
     \<lparr>file_name = js ''resume.txt'', file_type = js ''text/plain'', file_size = 2048\<rparr>"

definition file_16MiB :: resume_file where
  "file_16MiB =
     \<lparr>file_name = js ''scan.pdf'', file_type = js ''application/pdf'', file_size = 16777216\<rparr>"

text \<open>Job descriptions of 50 and of 49 code units after trimming, and 50 spaces.\<close>

definition description_50 :: jsstring where
  "description_50 = js ''  Backend engineer: Python, Go, Kubernetes, SQL, AWS '' @ [10]"

definition description_49 :: jsstring where
  "description_49 = js '' Backend engineer: Python, Go, Kubernetes, SQL, AW  ''"

definition spaces_50 :: jsstring where
  "spaces_50 = js ''                                                  ''"

definition with_inputs :: "resume_file option \<Rightarrow> jsstring \<Rightarrow> app_state" where
  "with_inputs f v = initial_state\<lparr>selectedFile := f, jobDescription := v\<rparr>"

text \<open>
  A response in the shape the component reads, and a flat record with the ten field
  names of the specification at top level.
\<close>

definition analysis_example :: jsval where
  "analysis_example =
     JObj [(''overall_score'', JNum 67), (''keyword_score'', JNum 50),
           (''tech_skill_score'', JNum 84),
           (''keyword_matches'', JArr [JStr (js ''backend'')]),
           (''keyword_misses'', JArr [JStr (js ''mentoring'')]),
           (''tech_skill_matches'', JArr [JStr (js ''python''), JStr (js ''go'')]),
           (''tech_skill_misses'', JArr []),
           (''structure'',
              JObj [(''sections_found'', JArr [JStr (js ''experience''), JStr (js ''skills'')]),
                    (''strong_verbs_count'', JNum 4)]),
           (''recommendations'', JArr [JStr (js ''Mention mentoring.'')])]"

definition metadata_example :: jsval where
  "metadata_example =
     JObj [(''filename'', JStr (js ''resume.pdf'')), (''resume_length'', JNum 1234),
           (''job_description_length'', JNum 50), (''total_job_keywords'', JNum 2),
           (''total_job_tech_skills'', JNum 2)]"

definition nested_response :: jsval where
  "nested_response = JObj [(''analysis'', analysis_example), (''metadata'', metadata_example)]"


text \<open>
  Further inputs: two successful capability responses, one reporting the two formats and
  16 with an extra field, one reporting a single format and 8; error bodies with a
  message, with an empty message, and with an object that has no string conversion; a
  second PDF.
\<close>

definition formats_body :: jsval where
  "formats_body =
     JObj [(''supported_formats'', JArr [JStr (js ''pdf''), JStr (js ''docx'')]),
           (''max_file_size_mb'', JNum 16), (''version'', JNum 2)]"

definition other_formats_body :: jsval where
  "other_formats_body =
     JObj [(''supported_formats'', JArr [JStr (js ''pdf'')]), (''max_file_size_mb'', JNum 8)]"

definition unconvertible_error_body :: jsval where
  "unconvertible_error_body = JObj [(''error'', JObj [(''toString'', JNum 1)])]"

definition second_pdf :: resume_file where
  "second_pdf =
     \<lparr>file_name = js ''other.pdf'', file_type = js ''application/pdf'', file_size = 4096\<rparr>"

definition empty_error_body :: jsval where
  "empty_error_body = JObj [(''error'', JStr [])]"

definition error_body :: jsval where
  "error_body = JObj [(''error'', JStr (js ''Unsupported file format''))]"



text \<open>
  Configurations reached from the initial one: a PDF dropped, then the description typed,
  then the analyze button clicked.
\<close>

definition pdf_selected :: config where
  "pdf_selected = fire example_host initial_config (Drop [pdf_file])"

definition ready_config :: config where
  "ready_config = fire example_host pdf_selected (Typed description_50)"

definition analyzing_config :: config where
  "analyzing_config = fire example_host ready_config AnalyzeClick"

text \<open>
  Then a second PDF dropped while the request is in flight, and the response to the
  request for the first one.
\<close>

definition dropped_config :: config where
  "dropped_config = fire example_host analyzing_config (Drop [second_pdf])"

definition stale_config :: config where
  "stale_config = fire example_host dropped_config (Settled (Response nested_response))"

section \<open>Invariants of the transition system\<close>

text \<open>The selected file, when there is one, has one of the two allowed types.\<close>

definition supported_selection :: "app_state \<Rightarrow> bool" where
  "supported_selection s =
     (case selectedFile s of None \<Rightarrow> True | Some g \<Rightarrow> file_type g \<in> set allowedTypes)"

text \<open>
  A request is in flight exactly while \<open>isAnalyzing\<close> holds; while it does, results and
  error are both \<open>null\<close>; and they are never both set.
\<close>

definition consistent :: "config \<Rightarrow> bool" where
  "consistent c =
     ((pending c \<noteq> None) = isAnalyzing (app c)
      \<and> (isAnalyzing (app c) \<longrightarrow> results (app c) = JNull \<and> error (app c) = None)
      \<and> (results (app c) = JNull \<or> error (app c) = None))"

section \<open>Facts about the concrete inputs\<close>

lemma trim_description_50: "length (trim description_50) = 50"
  by (simp add: description_50_def trim_def js_def is_ws_def)

lemma trim_description_49: "length (trim description_49) = 49"
  by (simp add: description_49_def trim_def js_def is_ws_def)

lemma text_file_unsupported: "file_type text_file \<notin> set allowedTypes"
  by (simp add: text_file_def allowedTypes_def js_def)

lemma pdf_file_accepted: "FileUploader_handleFileSelect (Some pdf_file) = OnFileSelect (Some pdf_file)"
  by (simp add: FileUploader_handleFileSelect_def pdf_file_def allowedTypes_def js_def maxSize_def)

lemma pdf_selected_reachable: "reachable example_host pdf_selected"
  unfolding pdf_selected_def by (rule reachable.step [OF reachable.init]) simp

lemma pdf_selected_file: "selectedFile (app pdf_selected) = Some pdf_file"
  by (simp add: pdf_selected_def handleDrop_def pdf_file_accepted run_effect_def
      App_handleFileSelect_def)

section \<open>The handlers of \<open>App\<close>\<close>

lemma handleAnalyze_start_ready:
  assumes "isReadyToAnalyze s"
  shows "\<exists>f. selectedFile s = Some f
           \<and> handleAnalyze_start s =
               (s\<lparr>isAnalyzing := True, error := None, results := JNull\<rparr>,
                Some (f, trim (jobDescription s)))"
proof -
  from assms obtain f where f: "selectedFile s = Some f"
    by (auto simp: isReadyToAnalyze_def)
  from assms have len: "50 \<le> length (trim (jobDescription s))"
    by (simp add: isReadyToAnalyze_def)
  then have "jobDescription s \<noteq> []" by (auto simp: trim_def)
  with f len show ?thesis by (simp add: handleAnalyze_start_def)
qed

lemma handleAnalyze_finish_Inr:
  "results (handleAnalyze_finish h (Inr d) s) = d"
  "error (handleAnalyze_finish h (Inr d) s) = error s"
  by (simp_all add: handleAnalyze_finish_def)

lemma handleAnalyze_finish_Inl:
  "results (handleAnalyze_finish h (Inl e) s) = results s"
  "error (handleAnalyze_finish h (Inl e) s) =
     Some (if message h e \<noteq> [] then message h e else js ''Analysis failed. Please try again.'')"
  by (simp_all add: handleAnalyze_finish_def)

lemma handleAnalyze_finish_isAnalyzing:
  "\<not> isAnalyzing (handleAnalyze_finish h r s)"
  by (simp add: handleAnalyze_finish_def split: sum.splits)

lemma Completed_not_Failed: "\<not> (Completed s \<and> Failed s)"
  by (auto simp: Completed_def Failed_def)

lemma finish_from_Analyzing:
  assumes "results s = JNull" and "error s = None"
  shows "Completed (handleAnalyze_finish h (Inr d) s) = (d \<noteq> JNull)"
    and "\<not> Failed (handleAnalyze_finish h (Inr d) s)"
    and "Failed (handleAnalyze_finish h (Inl e) s)"
    and "\<not> Completed (handleAnalyze_finish h (Inl e) s)"
  using assms
  by (simp_all add: Completed_def Failed_def handleAnalyze_finish_Inr handleAnalyze_finish_Inl
      handleAnalyze_finish_isAnalyzing)

lemma analyzeResume_Response:
  "post (f, jd) = Response d \<Longrightarrow> analyzeResume h post f jd = Inr d"
  by (simp add: analyzeResume_def)

lemma analyzeResume_failure:
  assumes "\<forall>d. post (f, jd) \<noteq> Response d"
  shows "\<exists>e. analyzeResume h post f jd = Inl e"
  using assms
  by (cases "post (f, jd)")
     (auto simp: analyzeResume_def and_then_def split: sum.splits)

lemma run_effect_Alert: "run_effect (Alert m) s = s"
  by (simp add: run_effect_def)

lemma run_effect_cases:
  "run_effect e s = s \<or> (\<exists>f. run_effect e s = App_handleFileSelect f s)"
  by (cases e) (auto simp: run_effect_def)

lemma run_effect_isAnalyzing: "isAnalyzing (run_effect e s) = isAnalyzing s"
  by (cases e) (simp_all add: run_effect_def App_handleFileSelect_def)

lemma handleAnalyze_start_selected:
  "selectedFile (fst (handleAnalyze_start s)) = selectedFile s"
  by (simp add: handleAnalyze_start_def split: option.splits)

lemma handleAnalyze_finish_selected:
  "selectedFile (handleAnalyze_finish h r s) = selectedFile s"
  by (simp add: handleAnalyze_finish_def split: sum.splits)

section \<open>The uploader only hands over supported files\<close>

lemma allowed_if_selected:
  "FileUploader_handleFileSelect file = OnFileSelect (Some g) \<Longrightarrow> file_type g \<in> set allowedTypes"
  by (auto simp: FileUploader_handleFileSelect_def split: option.splits if_splits)

lemma handleDrop_selected:
  "handleDrop files = OnFileSelect (Some g) \<Longrightarrow> file_type g \<in> set allowedTypes"
  by (auto simp: handleDrop_def split: list.splits dest: allowed_if_selected)

lemma handleInputChange_selected:
  "handleInputChange files = OnFileSelect (Some g) \<Longrightarrow> file_type g \<in> set allowedTypes"
  by (auto simp: handleInputChange_def split: list.splits dest: allowed_if_selected)

lemma run_effect_supported:
  assumes "supported_selection s" and "\<And>g. e = OnFileSelect (Some g) \<Longrightarrow> file_type g \<in> set allowedTypes"
  shows "supported_selection (run_effect e s)"
proof (cases e)
  case (OnFileSelect f)
  with assms(2) show ?thesis
    by (cases f) (simp_all add: run_effect_def App_handleFileSelect_def supported_selection_def)
qed (use assms(1) in \<open>simp_all add: run_effect_def\<close>)

lemma fire_supported:
  assumes "supported_selection (app c)"
  shows "supported_selection (app (fire h c e))"
proof (cases e)
  case (Drop files)
  then show ?thesis using assms handleDrop_selected by (simp add: run_effect_supported)
next
  case (InputChange files)
  then show ?thesis using assms handleInputChange_selected by (simp add: run_effect_supported)
next
  case RemoveClick
  then show ?thesis
    by (simp add: removeFile_def run_effect_def App_handleFileSelect_def supported_selection_def)
next
  case (Typed v)
  then show ?thesis using assms
    by (simp add: handleJobDescriptionChange_def supported_selection_def)
next
  case AnalyzeClick
  have "selectedFile (app (fire h c AnalyzeClick)) = selectedFile (app c)"
    using handleAnalyze_start_selected [of "app c"]
    by (cases "handleAnalyze_start (app c)") (auto split: option.splits)
  with AnalyzeClick assms show ?thesis by (simp add: supported_selection_def)
next
  case (Settled r)
  have "selectedFile (app (fire h c (Settled r))) = selectedFile (app c)"
    by (cases "pending c") (auto simp: handleAnalyze_finish_selected)
  with Settled assms show ?thesis by (simp add: supported_selection_def)
next
  case ResetClick
  then show ?thesis by (simp add: handleReset_def supported_selection_def)
qed

lemma reachable_supported: "reachable h c \<Longrightarrow> supported_selection (app c)"
proof (induction rule: reachable.induct)
  case init
  show ?case by (simp add: initial_config_def initial_state_def supported_selection_def)
next
  case (step c e)
  then show ?case by (simp add: fire_supported)
qed

section \<open>Results and error along every run\<close>

lemma consistent_run_effect:
  assumes "consistent c"
  shows "consistent (c\<lparr>app := run_effect e (app c)\<rparr>)"
  using assms run_effect_cases [of e "app c"]
  by (auto simp: consistent_def App_handleFileSelect_def)

lemma fire_consistent:
  assumes "consistent c" and "enabled c e"
  shows "consistent (fire h c e)"
proof (cases e)
  case (Drop files)
  then show ?thesis using assms(1) by (simp add: consistent_run_effect)
next
  case (InputChange files)
  then show ?thesis using assms(1) by (simp add: consistent_run_effect)
next
  case RemoveClick
  then show ?thesis using assms(1) by (simp add: consistent_run_effect)
next
  case (Typed v)
  then show ?thesis using assms by (simp add: consistent_def handleJobDescriptionChange_def)
next
  case AnalyzeClick
  with assms(2) have "isReadyToAnalyze (app c)" by simp
  from handleAnalyze_start_ready [OF this] AnalyzeClick show ?thesis
    by (auto simp: consistent_def)
next
  case (Settled r)
  with assms(2) obtain f jd where p: "pending c = Some (f, jd)" by auto
  from assms(1) p have a: "results (app c) = JNull" "error (app c) = None"
    by (auto simp: consistent_def)
  from Settled p a show ?thesis
    by (cases "analyzeResume h (\<lambda>_. r) f jd")
       (simp_all add: consistent_def handleAnalyze_finish_Inr handleAnalyze_finish_Inl
          handleAnalyze_finish_isAnalyzing)
next
  case ResetClick
  then show ?thesis using assms by (simp add: consistent_def handleReset_def)
qed

lemma reachable_consistent: "reachable h c \<Longrightarrow> consistent c"
proof (induction rule: reachable.induct)
  case init
  show ?case by (simp add: consistent_def initial_config_def initial_state_def)
next
  case (step c e)
  then show ?case by (simp add: fire_consistent)
qed

lemma starts_analyzing_only_by_click:
  assumes "\<not> isAnalyzing (app c)" and "isAnalyzing (app (fire h c e))"
  shows "e = AnalyzeClick \<and> isReadyToAnalyze (app c)"
proof (cases e)
  case AnalyzeClick
  have "isAnalyzing (fst (handleAnalyze_start (app c))) \<longrightarrow> isReadyToAnalyze (app c)"
    using assms(1)
    by (auto simp: handleAnalyze_start_def isReadyToAnalyze_def split: option.splits)
  moreover have "app (fire h c AnalyzeClick) = fst (handleAnalyze_start (app c))"
    by (cases "handleAnalyze_start (app c)") (auto split: option.splits)
  ultimately show ?thesis using assms(2) AnalyzeClick by simp
next
  case (Settled r)
  with assms show ?thesis
    by (cases "pending c") (auto simp: handleAnalyze_finish_isAnalyzing)
qed (use assms in \<open>simp_all add: run_effect_isAnalyzing handleJobDescriptionChange_def handleReset_def\<close>)

section \<open>Facts about the concrete configurations and bodies\<close>

lemma ready_config_app: "app ready_config = with_inputs (Some pdf_file) description_50"
  by (simp add: ready_config_def pdf_selected_def handleDrop_def pdf_file_accepted
      run_effect_def App_handleFileSelect_def handleJobDescriptionChange_def with_inputs_def
      initial_config_def initial_state_def)

lemma ready_state_ready: "isReadyToAnalyze (with_inputs (Some pdf_file) description_50)"
  by (simp add: isReadyToAnalyze_def with_inputs_def trim_description_50)

lemma ready_config_reachable: "reachable example_host ready_config"
  unfolding ready_config_def
  by (rule reachable.step [OF pdf_selected_reachable])
     (simp add: pdf_selected_def initial_config_def initial_state_def run_effect_isAnalyzing)

lemma ready_config_enabled: "enabled ready_config AnalyzeClick"
proof -
  have "\<not> isAnalyzing (with_inputs (Some pdf_file) description_50)"
    by (simp add: with_inputs_def initial_state_def)
  then show ?thesis by (simp add: ready_config_app ready_state_ready)
qed

lemma analyzing_config_reachable: "reachable example_host analyzing_config"
  unfolding analyzing_config_def
  by (rule reachable.step [OF ready_config_reachable ready_config_enabled])

lemma handlers_clear_output:
  "results (App_handleFileSelect f s) = JNull \<and> error (App_handleFileSelect f s) = None
   \<and> results (handleJobDescriptionChange v s) = JNull
   \<and> error (handleJobDescriptionChange v s) = None"
  by (simp add: App_handleFileSelect_def handleJobDescriptionChange_def)

lemma analyzing_config_app:
  "app analyzing_config =
     (with_inputs (Some pdf_file) description_50)\<lparr>isAnalyzing := True\<rparr>"
  "pending analyzing_config = Some (pdf_file, trim description_50)"
proof -
  let ?s = "with_inputs (Some pdf_file) description_50"
  have sel: "selectedFile ?s = Some pdf_file" "jobDescription ?s = description_50"
    "error ?s = None" "results ?s = JNull"
    by (simp_all add: with_inputs_def initial_state_def)
  from handleAnalyze_start_ready [OF ready_state_ready] sel(1)
  have st: "handleAnalyze_start ?s =
      (?s\<lparr>isAnalyzing := True, error := None, results := JNull\<rparr>,
       Some (pdf_file, trim (jobDescription ?s)))"
    by simp
  have eq: "?s\<lparr>isAnalyzing := True, error := None, results := JNull\<rparr> = ?s\<lparr>isAnalyzing := True\<rparr>"
    by (simp add: with_inputs_def initial_state_def)
  show "app analyzing_config = ?s\<lparr>isAnalyzing := True\<rparr>"
    and "pending analyzing_config = Some (pdf_file, trim description_50)"
    by (simp_all add: analyzing_config_def ready_config_app st eq sel(2))
qed

lemma second_pdf_accepted:
  "FileUploader_handleFileSelect (Some second_pdf) = OnFileSelect (Some second_pdf)"
  by (simp add: FileUploader_handleFileSelect_def second_pdf_def allowedTypes_def js_def
      maxSize_def)

lemma dropped_config_app:
  "app dropped_config =
     (with_inputs (Some second_pdf) description_50)\<lparr>isAnalyzing := True\<rparr>"
  "pending dropped_config = Some (pdf_file, trim description_50)"
  by (simp_all add: dropped_config_def analyzing_config_app handleDrop_def second_pdf_accepted
      run_effect_def App_handleFileSelect_def with_inputs_def initial_state_def)

lemma dropped_config_reachable: "reachable example_host dropped_config"
  unfolding dropped_config_def
  by (rule reachable.step [OF analyzing_config_reachable]) simp

lemma stale_config_reachable: "reachable example_host stale_config"
  unfolding stale_config_def
  by (rule reachable.step [OF dropped_config_reachable]) (simp add: dropped_config_app)

lemma stale_config_app:
  "app stale_config =
     (with_inputs (Some second_pdf) description_50)\<lparr>results := nested_response\<rparr>"
  by (simp add: stale_config_def dropped_config_app analyzeResume_def
      handleAnalyze_finish_def with_inputs_def initial_state_def)

lemma nested_response_not_null: "nested_response \<noteq> JNull"
  by (simp add: nested_response_def)

lemma error_body_field:
  "get_prop error_body ''error'' = Inr (JStr (js ''Unsupported file format''))"
  by (simp add: error_body_def)

lemma empty_error_body_field: "get_prop empty_error_body ''error'' = Inr (JStr [])"
  by (simp add: empty_error_body_def)

section \<open>What the results component reads and shows\<close>

lemma and_then_Inr: "and_then (Inr x) f = f x"
  by (simp add: and_then_def)

lemma and_then_Inl: "and_then (Inl e) f = Inl e"
  by (simp add: and_then_def)









lemma shows_at_here:
  assumes "get_prop a k = Inr x" and "component x = Inr c" and "c \<in> set (subviews v)"
  shows "shows_at a [k] component v"
  using assms by (simp add: shows_at_def and_then_Inr)























section \<open>The submission gate\<close>

text \<open>
  C2. For every state, \<open>handleAnalyze\<close> issues a request exactly when a file is
  selected and the trimmed job description has at least 50 code units; the request
  carries that file and the trimmed text. With a file selected, a trimmed length of
  exactly 50 issues the request, and a trimmed length of 49 issues none and sets the
  too-short message instead.
\<close>

theorem handleAnalyze_submits_iff:
  "(snd (handleAnalyze_start s) \<noteq> None
      \<longleftrightarrow> selectedFile s \<noteq> None \<and> length (trim (jobDescription s)) \<ge> 50)
   \<and> (snd (handleAnalyze_start s) \<noteq> None \<longleftrightarrow> isReadyToAnalyze s)
   \<and> (selectedFile s = Some f \<and> length (trim (jobDescription s)) = 50
        \<longrightarrow> snd (handleAnalyze_start s) = Some (f, trim (jobDescription s)))
   \<and> (selectedFile s = Some f \<and> length (trim (jobDescription s)) = 49
        \<longrightarrow> handleAnalyze_start s =
            (s\<lparr>error := Some (js
               ''Please provide a detailed job description (at least 50 characters).'')\<rparr>,
             None))"
proof -
  have empty: "jobDescription s = [] \<Longrightarrow> length (trim (jobDescription s)) = 0"
    by (simp add: trim_def)
  show ?thesis
    using empty
    by (cases "selectedFile s")
       (auto simp: handleAnalyze_start_def isReadyToAnalyze_def)
qed

theorem handleAnalyze_submits_iff_witness:
  "length (trim description_50) = 50
   \<and> snd (handleAnalyze_start (with_inputs (Some pdf_file) description_50))
       = Some (pdf_file, trim description_50)
   \<and> isReadyToAnalyze (with_inputs (Some pdf_file) description_50)
   \<and> length (trim description_49) = 49
   \<and> handleAnalyze_start (with_inputs (Some pdf_file) description_49)
       = ((with_inputs (Some pdf_file) description_49)\<lparr>error := Some (js
               ''Please provide a detailed job description (at least 50 characters).'')\<rparr>,
          None)
   \<and> \<not> isReadyToAnalyze (with_inputs (Some pdf_file) description_49)"
proof -
  let ?a = "with_inputs (Some pdf_file) description_50"
  let ?b = "with_inputs (Some pdf_file) description_49"
  have a: "selectedFile ?a = Some pdf_file \<and> length (trim (jobDescription ?a)) = 50"
    by (simp add: with_inputs_def trim_description_50)
  have b: "selectedFile ?b = Some pdf_file \<and> length (trim (jobDescription ?b)) = 49"
    by (simp add: with_inputs_def trim_description_49)
  have ja: "jobDescription ?a = description_50" and jb: "jobDescription ?b = description_49"
    by (simp_all add: with_inputs_def)
  from handleAnalyze_submits_iff [of ?a pdf_file] a
  have 1: "snd (handleAnalyze_start ?a) = Some (pdf_file, trim (jobDescription ?a))"
    and 2: "isReadyToAnalyze ?a"
    by auto
  from handleAnalyze_submits_iff [of ?b pdf_file] b
  have 3: "handleAnalyze_start ?b = (?b\<lparr>error := Some (js
               ''Please provide a detailed job description (at least 50 characters).'')\<rparr>,
          None)"
    and 4: "\<not> isReadyToAnalyze ?b"
    by auto
  from 1 2 3 4 ja jb show ?thesis
    by (simp add: trim_description_50 trim_description_49)
qed

text \<open>
  C3 (the code departs from the claim). The validity indicator of \<open>JobInput\<close> compares
  the untrimmed \<open>value.length\<close> with 50, while both checks of \<open>App\<close> trim first: a
  string of 50 spaces is judged valid by the indicator, is not ready to analyze, and
  \<open>handleAnalyze\<close> issues no request for it.
\<close>

theorem isValid_ignores_trimming:
  "isValid spaces_50
   \<and> \<not> isReadyToAnalyze (with_inputs (Some pdf_file) spaces_50)
   \<and> snd (handleAnalyze_start (with_inputs (Some pdf_file) spaces_50)) = None"
  by (simp add: isValid_def characterCount_def minLength_def spaces_50_def js_def
      isReadyToAnalyze_def handleAnalyze_start_def with_inputs_def trim_def is_ws_def)

section \<open>The uploader's checks\<close>

text \<open>
  C4 (the code departs from the claim). The size check rejects \<open>file.size > maxSize\<close>
  only: a PDF of exactly 16 MiB passes it, is handed to \<open>onFileSelect\<close> and becomes
  the selected file.
\<close>

theorem handleFileSelect_accepts_16MiB:
  "file_size file_16MiB = 16 * 1024 * 1024
   \<and> FileUploader_handleFileSelect (Some file_16MiB) = OnFileSelect (Some file_16MiB)
   \<and> selectedFile (run_effect (handleDrop [file_16MiB]) initial_state) = Some file_16MiB"
  by (simp add: file_16MiB_def FileUploader_handleFileSelect_def allowedTypes_def maxSize_def
      js_def run_effect_def handleDrop_def App_handleFileSelect_def)

text \<open>
  C5. A file whose type is neither of the two allowed MIME types is rejected with the
  alert: \<open>onFileSelect\<close> is not called, so the state of \<open>App\<close>, the selected file
  included, is unchanged, whether the file came from the input or was dropped. In every
  reachable configuration the selected file, if any, has one of the two allowed types.
\<close>

theorem unsupported_type_rejected:
  "(file_type f \<notin> set allowedTypes \<longrightarrow>
      FileUploader_handleFileSelect (Some f) = Alert (js ''Please select a PDF or DOCX file.'')
      \<and> run_effect (FileUploader_handleFileSelect (Some f)) s = s
      \<and> run_effect (handleDrop (f # fs)) s = s
      \<and> run_effect (handleInputChange (f # fs)) s = s)
   \<and> (reachable h c \<and> selectedFile (app c) = Some g \<longrightarrow> file_type g \<in> set allowedTypes)"
proof -
  have "file_type g \<in> set allowedTypes" if "reachable h c" "selectedFile (app c) = Some g"
    using reachable_supported [OF that(1)] that(2) by (simp add: supported_selection_def)
  then show ?thesis
    by (simp add: FileUploader_handleFileSelect_def handleDrop_def handleInputChange_def
        run_effect_def)
qed

theorem unsupported_type_rejected_witness:
  "file_type text_file \<notin> set allowedTypes
   \<and> run_effect (handleDrop [text_file]) (app pdf_selected) = app pdf_selected
   \<and> selectedFile (run_effect (handleDrop [text_file]) (app pdf_selected)) = Some pdf_file
   \<and> reachable example_host pdf_selected
   \<and> file_type pdf_file \<in> set allowedTypes"
  using unsupported_type_rejected [of text_file "app pdf_selected" "[]" example_host pdf_selected pdf_file]
    text_file_unsupported pdf_selected_reachable pdf_selected_file
  by simp

section \<open>Stale output\<close>

text \<open>
  C10 (the code departs from the claim). \<open>handleFileSelect\<close> and
  \<open>handleJobDescriptionChange\<close> do reset results and error, but stale output can still
  stand beside a changed input: the drop handler of the uploader has no \<open>disabled\<close>
  guard, unlike the click handler, the file input, the remove button and the text area.
  With the request for the first PDF in flight, a second PDF is dropped and becomes the
  selected file; when the request settles, the response for the first PDF is stored as
  results beside the second one.
\<close>

theorem stale_results_after_drop:
  "reachable example_host analyzing_config
   \<and> pending analyzing_config = Some (pdf_file, trim description_50)
   \<and> enabled analyzing_config (Drop [second_pdf])
   \<and> enabled (fire example_host analyzing_config (Drop [second_pdf]))
        (Settled (Response nested_response))
   \<and> stale_config =
        fire example_host (fire example_host analyzing_config (Drop [second_pdf]))
          (Settled (Response nested_response))
   \<and> reachable example_host stale_config
   \<and> selectedFile (app stale_config) = Some second_pdf
   \<and> results (app stale_config) = nested_response
   \<and> \<not> isAnalyzing (app stale_config)"
proof -
  have 1: "enabled (fire example_host analyzing_config (Drop [second_pdf]))
        (Settled (Response nested_response))"
    using dropped_config_app(2) unfolding dropped_config_def by simp
  have 2: "enabled analyzing_config (Drop [second_pdf])" by simp
  have 3: "stale_config =
        fire example_host (fire example_host analyzing_config (Drop [second_pdf]))
          (Settled (Response nested_response))"
    unfolding stale_config_def dropped_config_def by (rule refl)
  have 4: "selectedFile (app stale_config) = Some second_pdf"
    "results (app stale_config) = nested_response"
    "\<not> isAnalyzing (app stale_config)"
    unfolding stale_config_app by (simp_all add: with_inputs_def initial_state_def)
  from 1 2 3 4 analyzing_config_reachable analyzing_config_app(2) stale_config_reachable
  show ?thesis by blast
qed

section \<open>The interaction state\<close>

text \<open>
  C8 as the claim states it fails: a validated run whose request is answered with the
  body \<open>null\<close> ends with results and error both \<open>null\<close>, in the state it started
  from, which is neither Completed nor Failed.
\<close>

theorem null_response_neither_completed_nor_failed:
  "isReadyToAnalyze (with_inputs (Some pdf_file) description_50)
   \<and> snd (handleAnalyze example_host (\<lambda>req. Response JNull)
            (with_inputs (Some pdf_file) description_50))
       = with_inputs (Some pdf_file) description_50
   \<and> results (with_inputs (Some pdf_file) description_50) = JNull
   \<and> error (with_inputs (Some pdf_file) description_50) = None
   \<and> \<not> Completed (with_inputs (Some pdf_file) description_50)
   \<and> \<not> Failed (with_inputs (Some pdf_file) description_50)
   \<and> reachable example_host analyzing_config
   \<and> enabled analyzing_config (Settled (Response JNull))
   \<and> app (fire example_host analyzing_config (Settled (Response JNull))) = app ready_config"
proof -
  let ?s = "with_inputs (Some pdf_file) description_50"
  have sel: "selectedFile ?s = Some pdf_file" "jobDescription ?s = description_50"
    by (simp_all add: with_inputs_def)
  from handleAnalyze_start_ready [OF ready_state_ready] sel(1)
  have st: "handleAnalyze_start ?s =
      (?s\<lparr>isAnalyzing := True, error := None, results := JNull\<rparr>,
       Some (pdf_file, trim (jobDescription ?s)))"
    by simp
  have run: "snd (handleAnalyze example_host (\<lambda>req. Response JNull) ?s) = ?s"
    by (simp add: handleAnalyze_def st analyzeResume_def handleAnalyze_finish_def)
       (simp add: with_inputs_def initial_state_def)
  have "app (fire example_host analyzing_config (Settled (Response JNull)))
          = handleAnalyze_finish example_host (Inr JNull) (app analyzing_config)"
    by (simp add: analyzing_config_app(2) analyzeResume_def)
  also have "\<dots> = ?s"
    unfolding analyzing_config_app(1)
    by (simp add: handleAnalyze_finish_def with_inputs_def initial_state_def)
  finally have fin:
    "app (fire example_host analyzing_config (Settled (Response JNull))) = app ready_config"
    by (simp add: ready_config_app)
  have en: "enabled analyzing_config (Settled (Response JNull))"
    by (simp add: analyzing_config_app(2))
  have st0: "results ?s = JNull" "error ?s = None" "\<not> Completed ?s" "\<not> Failed ?s"
    by (simp_all add: with_inputs_def initial_state_def Completed_def Failed_def)
  from ready_state_ready run st0 analyzing_config_reachable en fin show ?thesis by blast
qed

text \<open>
  C8, amended. A run of \<open>handleAnalyze\<close> that passes validation is in the Analyzing state
  at its \<open>await\<close> (\<open>isAnalyzing\<close> true, results and error \<open>null\<close>) and ends with
  \<open>isAnalyzing\<close> false: for a request that fails in Failed (an error message stored,
  results \<open>null\<close>) and not in Completed; for a request that succeeds with the response
  data stored as results and error \<open>null\<close>, which is Completed exactly when the data is
  not \<open>null\<close>, and never Failed. \<open>post\<close> stands for a request that settles, as every
  request of the axios instance does within its timeout. The same holds in the
  transition system, where other events may arrive while the request is in flight: the
  click that is enabled leads to Analyzing, every configuration with a request in flight
  is Analyzing, and settling ends as above. In every reachable configuration results and
  error are not both non-null, and \<open>isAnalyzing\<close> becomes true only by the analyze click
  in a state that is ready to analyze.
\<close>

theorem handleAnalyze_transitions:
  "(isReadyToAnalyze s \<and> selectedFile s = Some f \<longrightarrow>
      Analyzing (fst (handleAnalyze h post s))
      \<and> \<not> isAnalyzing (snd (handleAnalyze h post s))
      \<and> (case post (f, trim (jobDescription s)) of
           Response d \<Rightarrow>
             results (snd (handleAnalyze h post s)) = d
             \<and> error (snd (handleAnalyze h post s)) = None
             \<and> Completed (snd (handleAnalyze h post s)) = (d \<noteq> JNull)
             \<and> \<not> Failed (snd (handleAnalyze h post s))
         | _ \<Rightarrow>
             Failed (snd (handleAnalyze h post s))
             \<and> \<not> Completed (snd (handleAnalyze h post s))))
   \<and> (reachable h c \<and> enabled c AnalyzeClick \<longrightarrow>
        Analyzing (app (fire h c AnalyzeClick)) \<and> pending (fire h c AnalyzeClick) \<noteq> None)
   \<and> (reachable h c \<and> pending c \<noteq> None \<longrightarrow>
        Analyzing (app c)
        \<and> \<not> isAnalyzing (app (fire h c (Settled r)))
        \<and> pending (fire h c (Settled r)) = None
        \<and> (case r of
             Response d \<Rightarrow>
               results (app (fire h c (Settled r))) = d
               \<and> error (app (fire h c (Settled r))) = None
               \<and> Completed (app (fire h c (Settled r))) = (d \<noteq> JNull)
               \<and> \<not> Failed (app (fire h c (Settled r)))
           | _ \<Rightarrow>
               Failed (app (fire h c (Settled r)))
               \<and> \<not> Completed (app (fire h c (Settled r)))))
   \<and> (reachable h c \<longrightarrow> \<not> (results (app c) \<noteq> JNull \<and> error (app c) \<noteq> None))
   \<and> (reachable h c \<and> \<not> isAnalyzing (app c) \<and> isAnalyzing (app (fire h c e)) \<longrightarrow>
        e = AnalyzeClick \<and> isReadyToAnalyze (app c))"
proof -
  have fin: "case p of
        Response d \<Rightarrow>
          results (handleAnalyze_finish h (analyzeResume h q g jd) s1) = d
          \<and> error (handleAnalyze_finish h (analyzeResume h q g jd) s1) = None
          \<and> Completed (handleAnalyze_finish h (analyzeResume h q g jd) s1) = (d \<noteq> JNull)
          \<and> \<not> Failed (handleAnalyze_finish h (analyzeResume h q g jd) s1)
      | _ \<Rightarrow>
          Failed (handleAnalyze_finish h (analyzeResume h q g jd) s1)
          \<and> \<not> Completed (handleAnalyze_finish h (analyzeResume h q g jd) s1)"
    if "q (g, jd) = p" and "results s1 = JNull" and "error s1 = None" for p q g jd s1
  proof (cases "\<exists>d. p = Response d")
    case True
    then obtain d where p: "p = Response d" by blast
    with that(1) have "analyzeResume h q g jd = Inr d" by (simp add: analyzeResume_Response)
    with p finish_from_Analyzing(1,2) [OF that(2,3), of h d] show ?thesis
      by (simp add: handleAnalyze_finish_Inr that(3))
  next
    case False
    with that(1) have "\<forall>d. q (g, jd) \<noteq> Response d" by simp
    with analyzeResume_failure [of q g jd h] obtain e where
      "analyzeResume h q g jd = Inl e" by blast
    with False finish_from_Analyzing(3,4) [OF that(2,3), of h e] show ?thesis
      by (cases p) simp_all
  qed
  have A: "Analyzing (fst (handleAnalyze h post s))
      \<and> \<not> isAnalyzing (snd (handleAnalyze h post s))
      \<and> (case post (f, trim (jobDescription s)) of
           Response d \<Rightarrow>
             results (snd (handleAnalyze h post s)) = d
             \<and> error (snd (handleAnalyze h post s)) = None
             \<and> Completed (snd (handleAnalyze h post s)) = (d \<noteq> JNull)
             \<and> \<not> Failed (snd (handleAnalyze h post s))
         | _ \<Rightarrow>
             Failed (snd (handleAnalyze h post s))
             \<and> \<not> Completed (snd (handleAnalyze h post s)))"
    if "isReadyToAnalyze s" and "selectedFile s = Some f"
  proof -
    from handleAnalyze_start_ready [OF that(1)] that(2) have
      st: "handleAnalyze_start s =
             (s\<lparr>isAnalyzing := True, error := None, results := JNull\<rparr>,
              Some (f, trim (jobDescription s)))"
      by simp
    let ?s1 = "s\<lparr>isAnalyzing := True, error := None, results := JNull\<rparr>"
    let ?r = "analyzeResume h post f (trim (jobDescription s))"
    have run: "fst (handleAnalyze h post s) = ?s1"
      "snd (handleAnalyze h post s) = handleAnalyze_finish h ?r ?s1"
      by (simp_all add: handleAnalyze_def st)
    have s1: "results ?s1 = JNull" "error ?s1 = None" by simp_all
    from fin [OF refl s1, of post f "trim (jobDescription s)"] show ?thesis
      unfolding run by (simp add: Analyzing_def handleAnalyze_finish_isAnalyzing)
  qed
  have B: "Analyzing (app (fire h c AnalyzeClick)) \<and> pending (fire h c AnalyzeClick) \<noteq> None"
    if "enabled c AnalyzeClick"
  proof -
    from that have "isReadyToAnalyze (app c)" by simp
    from handleAnalyze_start_ready [OF this] show ?thesis
      by (auto simp: Analyzing_def)
  qed
  have C: "Analyzing (app c)
        \<and> \<not> isAnalyzing (app (fire h c (Settled r)))
        \<and> pending (fire h c (Settled r)) = None
        \<and> (case r of
             Response d \<Rightarrow>
               results (app (fire h c (Settled r))) = d
               \<and> error (app (fire h c (Settled r))) = None
               \<and> Completed (app (fire h c (Settled r))) = (d \<noteq> JNull)
               \<and> \<not> Failed (app (fire h c (Settled r)))
           | _ \<Rightarrow>
               Failed (app (fire h c (Settled r)))
               \<and> \<not> Completed (app (fire h c (Settled r))))"
    if "reachable h c" and "pending c \<noteq> None"
  proof -
    from that(2) obtain g jd where p: "pending c = Some (g, jd)" by auto
    from reachable_consistent [OF that(1)] p
    have a: "isAnalyzing (app c)" "results (app c) = JNull" "error (app c) = None"
      by (auto simp: consistent_def)
    have s2: "app (fire h c (Settled r))
                = handleAnalyze_finish h (analyzeResume h (\<lambda>_. r) g jd) (app c)"
      and p2: "pending (fire h c (Settled r)) = None"
      by (simp_all add: p)
    from fin [OF refl a(2,3), of "\<lambda>_. r" g jd] a show ?thesis
      unfolding s2 p2 by (simp add: Analyzing_def handleAnalyze_finish_isAnalyzing)
  qed
  have D: "\<not> (results (app c) \<noteq> JNull \<and> error (app c) \<noteq> None)" if "reachable h c"
    using reachable_consistent [OF that] by (auto simp: consistent_def)
  from A B C D starts_analyzing_only_by_click [of c h e] show ?thesis by blast
qed

theorem handleAnalyze_transitions_witness:
  "isReadyToAnalyze (with_inputs (Some pdf_file) description_50)
   \<and> Analyzing (fst (handleAnalyze example_host (\<lambda>req. Response nested_response)
                      (with_inputs (Some pdf_file) description_50)))
   \<and> \<not> isAnalyzing (snd (handleAnalyze example_host (\<lambda>req. Response nested_response)
                      (with_inputs (Some pdf_file) description_50)))
   \<and> results (snd (handleAnalyze example_host (\<lambda>req. Response nested_response)
                      (with_inputs (Some pdf_file) description_50))) = nested_response
   \<and> Completed (snd (handleAnalyze example_host (\<lambda>req. Response nested_response)
                      (with_inputs (Some pdf_file) description_50)))
   \<and> reachable example_host ready_config
   \<and> enabled ready_config AnalyzeClick
   \<and> \<not> isAnalyzing (app ready_config)
   \<and> Analyzing (app analyzing_config)
   \<and> pending analyzing_config \<noteq> None
   \<and> reachable example_host analyzing_config
   \<and> Completed (app (fire example_host analyzing_config (Settled (Response nested_response))))
   \<and> Failed (app (fire example_host analyzing_config (Settled ErrorRequest)))
   \<and> \<not> Completed (app (fire example_host analyzing_config (Settled (Response JNull))))
   \<and> \<not> Failed (app (fire example_host analyzing_config (Settled (Response JNull))))
   \<and> \<not> (results (app analyzing_config) \<noteq> JNull \<and> error (app analyzing_config) \<noteq> None)"
proof -
  let ?s = "with_inputs (Some pdf_file) description_50"
  let ?post = "\<lambda>req :: resume_file \<times> jsstring. Response nested_response"
  note r = ready_state_ready ready_config_reachable ready_config_enabled
  have sel: "selectedFile ?s = Some pdf_file" by (simp add: with_inputs_def)
  from handleAnalyze_transitions
    [of ?s pdf_file example_host ?post ready_config ErrorRequest AnalyzeClick] r sel
    nested_response_not_null
  have 1: "Analyzing (fst (handleAnalyze example_host ?post ?s))"
    "\<not> isAnalyzing (snd (handleAnalyze example_host ?post ?s))"
    "results (snd (handleAnalyze example_host ?post ?s)) = nested_response"
    "Completed (snd (handleAnalyze example_host ?post ?s))"
    "Analyzing (app analyzing_config)" "pending analyzing_config \<noteq> None"
    unfolding analyzing_config_def by simp_all
  from handleAnalyze_transitions
    [of ?s pdf_file example_host ?post analyzing_config "Response nested_response" AnalyzeClick]
    analyzing_config_reachable 1(6) nested_response_not_null
  have 2: "Completed
         (app (fire example_host analyzing_config (Settled (Response nested_response))))"
    "\<not> (results (app analyzing_config) \<noteq> JNull \<and> error (app analyzing_config) \<noteq> None)"
    by simp_all
  from handleAnalyze_transitions
    [of ?s pdf_file example_host ?post analyzing_config ErrorRequest AnalyzeClick]
    analyzing_config_reachable 1(6)
  have 3: "Failed (app (fire example_host analyzing_config (Settled ErrorRequest)))"
    by simp
  from handleAnalyze_transitions
    [of ?s pdf_file example_host ?post analyzing_config "Response JNull" AnalyzeClick]
    analyzing_config_reachable 1(6)
  have 4: "\<not> Completed (app (fire example_host analyzing_config (Settled (Response JNull))))"
    "\<not> Failed (app (fire example_host analyzing_config (Settled (Response JNull))))"
    by simp_all
  from r(3) have 5: "\<not> isAnalyzing (app ready_config)" by simp
  from r analyzing_config_reachable 1 2 3 4 5 show ?thesis by blast
qed

section \<open>The capability request\<close>

text \<open>
  C6 as the claim states it fails: a successful response whose body reports one format
  and a cap of 8 is returned as it is, and the caller does not receive the two formats
  and the cap of 16.
\<close>

theorem getSupportedFormats_passes_body_on:
  "getSupportedFormats (Response other_formats_body) = Inr other_formats_body
   \<and> get_prop other_formats_body ''supported_formats'' = Inr (JArr [JStr (js ''pdf'')])
   \<and> get_prop other_formats_body ''max_file_size_mb'' = Inr (JNum 8)
   \<and> \<not> reports_formats_and_cap other_formats_body"
  by (simp add: getSupportedFormats_def other_formats_body_def reports_formats_and_cap_def)

text \<open>
  C6, amended. \<open>getSupportedFormats\<close> always resolves: a request that succeeds gives
  the response body unchanged, every failure (an answer with an error status included,
  which axios rejects) gives the constant record, which carries the two formats and the
  cap of 16. On success the caller receives the two formats and the cap exactly when
  the body carries them.
\<close>

theorem getSupportedFormats_resolves:
  "(\<exists>v. getSupportedFormats r = Inr v)
   \<and> getSupportedFormats (Response d) = Inr d
   \<and> getSupportedFormats (ErrorResponse d) = Inr default_formats
   \<and> getSupportedFormats ErrorRequest = Inr default_formats
   \<and> getSupportedFormats ErrorOther = Inr default_formats
   \<and> reports_formats_and_cap default_formats
   \<and> (\<exists>v. getSupportedFormats (Response d) = Inr v \<and> reports_formats_and_cap v)
       = reports_formats_and_cap d"
proof -
  have "reports_formats_and_cap default_formats"
    by (simp add: reports_formats_and_cap_def default_formats_def)
  then show ?thesis
    by (cases r) (simp_all add: getSupportedFormats_def)
qed

section \<open>Failures of the analysis request\<close>

text \<open>
  C9 as the claim states it fails: for an error response whose body has the \<open>error\<close>
  field present and equal to the empty string, the message thrown is
  \<open>Analysis failed\<close>, not the field.
\<close>

theorem analyzeResume_empty_error_field:
  "get_prop empty_error_body ''error'' = Inr (JStr [])
   \<and> analyzeResume example_host (\<lambda>req. ErrorResponse empty_error_body) pdf_file description_50
       = Inl (Error (js ''Analysis failed''))
   \<and> js ''Analysis failed'' \<noteq> []"
  by (simp add: empty_error_body_def analyzeResume_def and_then_def js_def)

text \<open>
  C9, amended. Every failed call of \<open>analyzeResume\<close> throws. For an error response whose
  body is not \<open>null\<close> or \<open>undefined\<close>, the message is the body's \<open>error\<close> field
  when that is a non-empty string, the string the field converts to when it is any other
  truthy value that has a string conversion, and \<open>Analysis failed\<close> when the field is
  absent or falsy; it is the connection message when no response was received and the
  generic message otherwise. \<open>App\<close> stores a thrown message unchanged when it is not
  empty, and leaves the results as they are.
\<close>

theorem analyzeResume_failure_messages:
  "((\<forall>d. post (f, jd) \<noteq> Response d) \<longrightarrow> (\<exists>e. analyzeResume h post f jd = Inl e))
   \<and> (post (f, jd) = ErrorResponse d \<and> get_prop d ''error'' = Inr (JStr m) \<and> m \<noteq> [] \<longrightarrow>
        analyzeResume h post f jd = Inl (Error m))
   \<and> (post (f, jd) = ErrorResponse d \<and> get_prop d ''error'' = Inr v \<and> truthy v
       \<and> to_string h v = Inr m' \<longrightarrow>
        analyzeResume h post f jd = Inl (Error m'))
   \<and> (post (f, jd) = ErrorResponse d \<and> get_prop d ''error'' = Inr v \<and> \<not> truthy v \<longrightarrow>
        analyzeResume h post f jd = Inl (Error (js ''Analysis failed'')))
   \<and> (post (f, jd) = ErrorRequest \<longrightarrow>
        analyzeResume h post f jd
          = Inl (Error (js ''Unable to connect to the server. Please try again.'')))
   \<and> (post (f, jd) = ErrorOther \<longrightarrow>
        analyzeResume h post f jd = Inl (Error (js ''An unexpected error occurred'')))
   \<and> (msg \<noteq> [] \<longrightarrow>
        error (handleAnalyze_finish h (Inl (Error msg)) s) = Some msg
        \<and> results (handleAnalyze_finish h (Inl (Error msg)) s) = results s)"
  using analyzeResume_failure [of post f jd h]
  by (auto simp: analyzeResume_def and_then_def handleAnalyze_finish_def message_def)

theorem analyzeResume_failure_messages_witness:
  "analyzeResume example_host (\<lambda>req. ErrorResponse error_body) pdf_file description_50
     = Inl (Error (js ''Unsupported file format''))
   \<and> error (handleAnalyze_finish example_host (Inl (Error (js ''Unsupported file format'')))
        initial_state) = Some (js ''Unsupported file format'')
   \<and> analyzeResume example_host (\<lambda>req. ErrorResponse empty_error_body) pdf_file description_50
     = Inl (Error (js ''Analysis failed''))
   \<and> analyzeResume example_host (\<lambda>req. ErrorRequest) pdf_file description_50
     = Inl (Error (js ''Unable to connect to the server. Please try again.''))
   \<and> analyzeResume example_host (\<lambda>req. ErrorOther) pdf_file description_50
     = Inl (Error (js ''An unexpected error occurred''))
   \<and> analyzeResume example_host (\<lambda>req. ErrorResponse unconvertible_error_body) pdf_file
        description_50 = Inl TypeError"
proof -
  let ?m = "js ''Unsupported file format''"
  have ne: "?m \<noteq> []" by (simp add: js_def)
  have ts: "to_string example_host (JStr ?m) = Inr ?m" by simp
  from analyzeResume_failure_messages
    [of "\<lambda>req. ErrorResponse error_body" pdf_file description_50 example_host error_body
      ?m "JStr ?m" ?m ?m initial_state]
    error_body_field ne ts
  have 1: "analyzeResume example_host (\<lambda>req. ErrorResponse error_body) pdf_file description_50
     = Inl (Error ?m)"
    "error (handleAnalyze_finish example_host (Inl (Error ?m)) initial_state) = Some ?m"
    by simp_all
  from analyzeResume_failure_messages
    [of "\<lambda>req. ErrorResponse empty_error_body" pdf_file description_50 example_host
      empty_error_body "[]" "JStr []" "[]" "[]" initial_state]
    empty_error_body_field
  have 2: "analyzeResume example_host (\<lambda>req. ErrorResponse empty_error_body) pdf_file
     description_50 = Inl (Error (js ''Analysis failed''))"
    by simp
  from analyzeResume_failure_messages
    [of "\<lambda>req. ErrorRequest" pdf_file description_50 example_host JNull "[]" JNull "[]" "[]"
      initial_state]
  have 3: "analyzeResume example_host (\<lambda>req. ErrorRequest) pdf_file description_50
     = Inl (Error (js ''Unable to connect to the server. Please try again.''))"
    by simp
  from analyzeResume_failure_messages
    [of "\<lambda>req. ErrorOther" pdf_file description_50 example_host JNull "[]" JNull "[]" "[]"
      initial_state]
  have 4: "analyzeResume example_host (\<lambda>req. ErrorOther) pdf_file description_50
     = Inl (Error (js ''An unexpected error occurred''))"
    by simp
  have 5: "analyzeResume example_host (\<lambda>req. ErrorResponse unconvertible_error_body) pdf_file
        description_50 = Inl TypeError"
    by (simp add: analyzeResume_def unconvertible_error_body_def and_then_def)
  from 1 2 3 4 5 show ?thesis by blast
qed

section \<open>The shape of a rendered response\<close>




end
